theory Spec2Isabelle
  imports Main "HOL-Library.Char_ord" "HOL-Library.List_Lexorder"
begin

section \<open>Python strings\<close>

text \<open>
  A Python \<open>str\<close> is modelled as a \<open>string\<close> holding its UTF-8 bytes. Prefix and suffix
  tests, splitting at an ASCII separator, concatenation and the ordering used by
  \<open>sorted\<close> agree with Python on that representation. \<open>str.lower\<close> is modelled on the
  ASCII letters; bytes outside \<open>A\<close>..\<open>Z\<close> are left as they are.
\<close>

definition lower_char :: "char \<Rightarrow> char" where
  "lower_char c =
     (case map_of (zip ''ABCDEFGHIJKLMNOPQRSTUVWXYZ'' ''abcdefghijklmnopqrstuvwxyz'') c of
        Some l \<Rightarrow> l
      | None \<Rightarrow> c)"

definition lower :: "string \<Rightarrow> string" where
  "lower s = map lower_char s"

definition startswith :: "string \<Rightarrow> string \<Rightarrow> bool" where
  "startswith s p = (take (length p) s = p)"

definition endswith :: "string \<Rightarrow> string \<Rightarrow> bool" where
  "endswith s p = (length p \<le> length s \<and> drop (length s - length p) s = p)"

text \<open>\<open>s.split(sep)\<close> for a one-character separator: the pieces between the separators.\<close>

fun split_acc :: "char \<Rightarrow> string \<Rightarrow> string \<Rightarrow> string list" where
  "split_acc sep cur [] = [rev cur]"
| "split_acc sep cur (c # cs) =
     (if c = sep then rev cur # split_acc sep [] cs else split_acc sep (c # cur) cs)"

definition split :: "string \<Rightarrow> char \<Rightarrow> string list" where
  "split s sep = split_acc sep [] s"

text \<open>Truthiness of an optional string: \<open>None\<close> and \<open>""\<close> are false.\<close>

definition truthy :: "string option \<Rightarrow> bool" where
  "truthy v = (case v of None \<Rightarrow> False | Some s \<Rightarrow> s \<noteq> [])"

text \<open>\<open>a or b\<close> on optional strings.\<close>

definition py_or :: "string option \<Rightarrow> string option \<Rightarrow> string option" where
  "py_or a b = (if truthy a then a else b)"

section \<open>Schema metadata\<close>

text \<open>
  The column type objects of the database toolkit. A constructor stands for the class of
  that name and for its subclasses that are not listed themselves (the listed subclasses
  fall under the same \<open>isinstance\<close> test as their parent); \<open>OtherType\<close> stands for every
  class that none of the \<open>isinstance\<close> tests of the program accepts.
\<close>

datatype sqltype =
    String | SqlText | Unicode | UnicodeText
  | Date | DateTime | TIMESTAMP
  | Integer | BigInteger | SmallInteger
  | Boolean | Float | Numeric | JSON | LargeBinary
  | OtherType

definition is_text_type :: "sqltype \<Rightarrow> bool" where
  "is_text_type t = (t \<in> {String, SqlText, Unicode, UnicodeText})"

definition is_date_type :: "sqltype \<Rightarrow> bool" where
  "is_date_type t = (t \<in> {Date, DateTime, TIMESTAMP})"

definition is_int_type :: "sqltype \<Rightarrow> bool" where
  "is_int_type t = (t \<in> {Integer, BigInteger, SmallInteger})"

definition is_num_type :: "sqltype \<Rightarrow> bool" where
  "is_num_type t = (t \<in> {Float, Numeric})"

definition is_bool_type :: "sqltype \<Rightarrow> bool" where
  "is_bool_type t = (t = Boolean)"

definition is_json_type :: "sqltype \<Rightarrow> bool" where
  "is_json_type t = (t = JSON)"

definition is_binary_type :: "sqltype \<Rightarrow> bool" where
  "is_binary_type t = (t = LargeBinary)"

text \<open>A column as the inspector reports it (\<open>insp.get_columns\<close>).\<close>

record insp_column =
  ic_name :: string
  ic_type :: sqltype
  ic_nullable :: "bool option"
  ic_default :: "string option"
  ic_autoincrement :: bool

text \<open>A foreign-key constraint as the inspector reports it (\<open>insp.get_foreign_keys\<close>).\<close>

record fk_constraint =
  constrained_columns :: "string list"
  referred_schema :: "string option"
  referred_table :: "string option"
  referred_columns :: "string list"

text \<open>A column of a reflected \<open>Table\<close> object.\<close>

datatype identity = Identity

record tcolumn =
  tc_name :: string
  tc_type :: sqltype
  tc_identity :: "identity option"

text \<open>
  The live metadata of the store, as the inspector and table reflection return it. Table
  level lookups take the table name first and the schema second, as the calls in the
  program do. A lookup never fails here: the metadata is that of a reachable store in
  which the named table exists.
\<close>

record catalog =
  schema_names :: "string list"
  table_names :: "string \<Rightarrow> string list"
  pk_constraint :: "string \<Rightarrow> string \<Rightarrow> string list option"
  insp_columns :: "string \<Rightarrow> string \<Rightarrow> insp_column list"
  insp_foreign_keys :: "string \<Rightarrow> string \<Rightarrow> fk_constraint list"
  reflected :: "string \<Rightarrow> string \<Rightarrow> tcolumn list"

definition get_tables :: "catalog \<Rightarrow> string list" where
  "get_tables cat =
     (let tables =
            concat (map (\<lambda>schema. map (\<lambda>t. schema @ ''.'' @ t) (table_names cat schema))
                        (filter (\<lambda>schema. schema \<notin> {''pg_catalog'', ''information_schema''})
                                (schema_names cat)));
          tables = (if tables = []
                    then map (\<lambda>t. ''public.'' @ t) (table_names cat ''public'')
                    else tables)
      in sort tables)"

definition parse_table :: "string \<Rightarrow> string \<times> string" where
  "parse_table fullname =
     (if CHR ''.'' \<in> set fullname
      then (takeWhile (\<lambda>c. c \<noteq> CHR ''.'') fullname,
            drop 1 (dropWhile (\<lambda>c. c \<noteq> CHR ''.'') fullname))
      else (''public'', fullname))"

definition reflect_table :: "catalog \<Rightarrow> string \<Rightarrow> tcolumn list" where
  "reflect_table cat fullname = (case parse_table fullname of (schema, name) \<Rightarrow> reflected cat name schema)"

text \<open>\<open>table.c.get(name)\<close>: the column of that name, if any.\<close>

definition table_c_get :: "tcolumn list \<Rightarrow> string \<Rightarrow> tcolumn option" where
  "table_c_get table name = find (\<lambda>c. tc_name c = name) table"

definition get_primary_key :: "catalog \<Rightarrow> string \<Rightarrow> string list option" where
  "get_primary_key cat fullname = (case parse_table fullname of (schema, name) \<Rightarrow> pk_constraint cat name schema)"

text \<open>\<open>get_primary_key(fullname) or []\<close>.\<close>

definition pk_or_empty :: "catalog \<Rightarrow> string \<Rightarrow> string list" where
  "pk_or_empty cat fullname = (case get_primary_key cat fullname of None \<Rightarrow> [] | Some pk \<Rightarrow> pk)"

section \<open>Relationship resolution\<close>

text \<open>One step of the loop of \<open>_all_table_name_candidates\<close>; \<open>out\<close> is the dictionary.\<close>

definition add_candidates :: "string \<Rightarrow> (string \<rightharpoonup> string) \<Rightarrow> (string \<rightharpoonup> string)" where
  "add_candidates full out =
     (let base = lower (snd (parse_table full));
          out = out(base \<mapsto> full)
      in if endswith base ''ies'' then out(take (length base - 3) base @ ''y'' \<mapsto> full)
         else if endswith base ''s'' \<and> \<not> endswith base ''ss'' then out(take (length base - 1) base \<mapsto> full)
         else (out(base @ ''s'' \<mapsto> full))(base @ ''es'' \<mapsto> full))"

definition all_table_name_candidates :: "catalog \<Rightarrow> (string \<rightharpoonup> string)" where
  "all_table_name_candidates cat = fold add_candidates (get_tables cat) Map.empty"

definition directional_prefixes :: "string list" where
  "directional_prefixes =
     [''new_'', ''old_'', ''src_'', ''dst_'', ''from_'', ''to_'', ''target_'', ''source_'',
      ''current_'', ''prev_'', ''next_'']"

text \<open>The \<open>for pref in (...)\<close> loop of \<open>guess_ref_table_for_param\<close>, with its \<open>break\<close>.\<close>

fun strip_prefix :: "string list \<Rightarrow> string \<Rightarrow> string" where
  "strip_prefix [] base = base"
| "strip_prefix (pref # prefs) base =
     (if startswith base pref then drop (length pref) base else strip_prefix prefs base)"

text \<open>The inner function \<open>find_by_pk\<close>, as a loop over the tables still to visit.\<close>

fun find_by_pk_loop :: "catalog \<Rightarrow> string \<Rightarrow> string list \<Rightarrow> string option" where
  "find_by_pk_loop cat base_key [] = None"
| "find_by_pk_loop cat base_key (full # rest) =
     (let pk = pk_or_empty cat full
      in if length pk = 1 \<and> lower (hd pk) = base_key @ ''_id'' then Some full
         else find_by_pk_loop cat base_key rest)"

definition find_by_pk :: "catalog \<Rightarrow> string \<Rightarrow> string option" where
  "find_by_pk cat base_key = find_by_pk_loop cat base_key (get_tables cat)"

text \<open>
  The part of \<open>guess_ref_table_for_param\<close> after the prefix loop: the lookups made with
  the base token.
\<close>

definition lookup_base :: "catalog \<Rightarrow> string \<Rightarrow> string option" where
  "lookup_base cat base =
     (let candidates = all_table_name_candidates cat
      in case candidates base of
           Some t \<Rightarrow> Some t
         | None \<Rightarrow>
            (case (if CHR ''_'' \<in> set base then candidates (last (split base CHR ''_'')) else None) of
               Some t \<Rightarrow> Some t
             | None \<Rightarrow>
                (let match = find_by_pk cat base
                 in if truthy match then match
                    else let match2 = (if CHR ''_'' \<in> set base
                                       then find_by_pk cat (last (split base CHR ''_''))
                                       else None)
                         in if truthy match2 then match2 else candidates base)))"

definition guess_ref_table_for_param :: "catalog \<Rightarrow> string option \<Rightarrow> string option" where
  "guess_ref_table_for_param cat param_name =
     (if \<not> truthy param_name then None
      else let name = lower (the param_name)
           in if endswith name ''_id''
              then lookup_base cat (strip_prefix directional_prefixes (take (length name - 3) name))
              else None)"

text \<open>Explicit overrides for procedure parameter to referenced table.\<close>

definition PROCEDURE_PARAM_TABLE_OVERRIDES :: "(string \<times> (string \<times> string) list) list" where
  "PROCEDURE_PARAM_TABLE_OVERRIDES =
     [(''leader_transfer'',
       [(''new_leader_id'', ''public.young_people''),
        (''target_id'', ''public.projects'')])]"

text \<open>
  \<open>PROCEDURE_PARAM_TABLE_OVERRIDES.get(proc, {}).get(p.get('name'))\<close>; the name of a
  parameter may be \<open>None\<close>.
\<close>

definition override_lookup :: "string \<Rightarrow> string option \<Rightarrow> string option" where
  "override_lookup proc pname =
     (case pname of
        None \<Rightarrow> None
      | Some n \<Rightarrow>
         map_of (case map_of PROCEDURE_PARAM_TABLE_OVERRIDES proc of None \<Rightarrow> [] | Some d \<Rightarrow> d) n)"

text \<open>
  The referenced table chosen for a parameter by \<open>enrich_procedures_with_options\<close>:
  the explicit override first, the guess only when there is none.
\<close>

definition resolve_ref_full :: "catalog \<Rightarrow> string \<Rightarrow> string option \<Rightarrow> string option" where
  "resolve_ref_full cat proc pname =
     (let ref_full = override_lookup proc pname
      in if \<not> truthy ref_full then guess_ref_table_for_param cat pname else ref_full)"

section \<open>Column metadata and labels\<close>

record fk_info =
  ref_schema :: string
  ref_table :: string
  ref_fullname :: string
  ref_column :: string

record col_meta =
  name :: string
  ctype :: sqltype
  nullable :: bool
  is_pk :: bool
  autoincrement :: bool
  default :: "string option"

definition get_columns :: "catalog \<Rightarrow> string \<Rightarrow> col_meta list" where
  "get_columns cat fullname =
     (case parse_table fullname of (schema, tname) \<Rightarrow>
        let cols = insp_columns cat tname schema;
            pks = set (pk_or_empty cat fullname)
        in map (\<lambda>c. \<lparr> name = ic_name c, ctype = ic_type c,
                       nullable = (case ic_nullable c of None \<Rightarrow> True | Some b \<Rightarrow> b),
                       is_pk = (ic_name c \<in> pks),
                       autoincrement = ic_autoincrement c,
                       default = ic_default c \<rparr>) cols)"

text \<open>The inner loop of \<open>get_foreign_keys\<close> over the local columns of one constraint.\<close>

fun fk_columns_loop ::
  "string \<Rightarrow> string \<Rightarrow> string list \<Rightarrow> nat \<Rightarrow> string list \<Rightarrow> (string \<rightharpoonup> fk_info) \<Rightarrow> (string \<rightharpoonup> fk_info)" where
  "fk_columns_loop rschema rtable ref_cols i [] mapping = mapping"
| "fk_columns_loop rschema rtable ref_cols i (lcol # rest) mapping =
     (let rcol = (if i < length ref_cols then ref_cols ! i else hd ref_cols)
      in fk_columns_loop rschema rtable ref_cols (Suc i) rest
           (mapping(lcol \<mapsto> \<lparr> ref_schema = rschema, ref_table = rtable,
                               ref_fullname = rschema @ ''.'' @ rtable, ref_column = rcol \<rparr>)))"

definition add_foreign_key :: "string \<Rightarrow> fk_constraint \<Rightarrow> (string \<rightharpoonup> fk_info) \<Rightarrow> (string \<rightharpoonup> fk_info)" where
  "add_foreign_key schema fk mapping =
     (let local_cols = constrained_columns fk;
          rschema = py_or (py_or (referred_schema fk) (Some schema)) (Some ''public'');
          rtable = referred_table fk;
          ref_cols = referred_columns fk
      in if \<not> truthy rtable \<or> local_cols = [] \<or> ref_cols = [] then mapping
         else fk_columns_loop (the rschema) (the rtable) ref_cols 0 local_cols mapping)"

definition get_foreign_keys :: "catalog \<Rightarrow> string \<Rightarrow> (string \<rightharpoonup> fk_info)" where
  "get_foreign_keys cat fullname =
     (case parse_table fullname of (schema, tname) \<Rightarrow>
        fold (add_foreign_key schema) (insp_foreign_keys cat tname schema) Map.empty)"

definition preferred :: "string list" where
  "preferred =
     [''name'', ''full_name'', ''title'', ''label'', ''display_name'', ''username'', ''email'',
      ''description'']"

text \<open>The nested loops of \<open>pick_label_column\<close> over the preferred names and the text columns.\<close>

fun pick_preferred :: "string list \<Rightarrow> col_meta list \<Rightarrow> string option" where
  "pick_preferred [] text_cols = None"
| "pick_preferred (pname # rest) text_cols =
     (case find (\<lambda>c. lower (name c) = pname) text_cols of
        Some c \<Rightarrow> Some (name c)
      | None \<Rightarrow> pick_preferred rest text_cols)"

definition pick_label_column :: "catalog \<Rightarrow> string \<Rightarrow> string" where
  "pick_label_column cat fullname =
     (let cols = get_columns cat fullname;
          pk_cols = pk_or_empty cat fullname;
          text_cols = filter (\<lambda>c. is_text_type (ctype c)) cols;
          names_map = set (map (\<lambda>c. lower (name c)) text_cols)
      in if ''first_name'' \<in> names_map \<and> ''last_name'' \<in> names_map then ''first_name last_name''
         else case pick_preferred preferred text_cols of
                Some n \<Rightarrow> n
              | None \<Rightarrow>
                 if text_cols \<noteq> [] then name (hd text_cols)
                 else if pk_cols \<noteq> [] then hd pk_cols
                 else if cols \<noteq> [] then name (hd cols)
                 else ''id'')"

section \<open>The store\<close>

text \<open>
  The results of the builtins \<open>float\<close> and \<open>json.loads\<close> are kept abstract: the program
  only passes them on to the store.
\<close>

typedecl pyfloat
typedecl pyjson

datatype pyvalue =
    PyNone
  | PyBool bool
  | PyInt int
  | PyFloat pyfloat
  | PyStr string
  | PyBytes string
  | PyJson pyjson

text \<open>A result row (\<open>.mappings()\<close>): the column names in order, each with its value.\<close>

type_synonym row = "(string \<times> pyvalue) list"

text \<open>
  A submitted form as \<open>dict(form)\<close>: the field names, each once, in order, each with its
  text.
\<close>

type_synonym form = "(string \<times> string) list"

definition form_get :: "form \<Rightarrow> string \<Rightarrow> string option" where
  "form_get f k = map_of f k"

text \<open>\<open>raw is None or raw == ""\<close>.\<close>

definition blank :: "string option \<Rightarrow> bool" where
  "blank raw = (raw = None \<or> raw = Some [])"

text \<open>The diagnostic a failed statement carries (\<open>e.orig\<close> and \<open>e.orig.diag\<close>).\<close>

record diag =
  column_name :: "string option"
  constraint_name :: "string option"
  message_primary :: "string option"
  message_detail :: "string option"
  message_hint :: "string option"

record orig =
  sqlstate :: "string option"
  pgcode :: "string option"
  diag :: "diag option"

record db_error =
  is_integrity_error :: bool
  is_data_error :: bool
  str_e :: string
  orig :: "orig option"

datatype exn = SQLAlchemyError db_error | KeyError string

datatype label_expr = LabelColumn string | LabelConcat string string

datatype filter_expr =
    ILikeAny "string list" string
  | DateGe string
  | DateLe string

text \<open>
  The statements the program hands to the store, each with its bound parameters:
  \<^item> \<open>TextStmt sql params\<close>: \<open>text(sql)\<close> executed with \<open>params\<close>;
  \<^item> \<open>InsertStmt table values\<close>: \<open>table.insert().values(**values)\<close>;
  \<^item> \<open>SelectOptions table id label limit\<close>: the \<open>(id, label)\<close> select of \<open>fetch_fk_options\<close>;
  \<^item> \<open>SelectAfterPk table pk last_pk max_rows\<close>: the select of \<open>select_new_rows_after_pk\<close>;
  \<^item> \<open>SelectFiltered table filters limit params\<close>: the select of \<open>export_csv\<close>.
\<close>

datatype statement =
    TextStmt string form
  | InsertStmt string "string \<rightharpoonup> pyvalue"
  | SelectOptions string string label_expr int
  | SelectAfterPk string string int int
  | SelectFiltered string "filter_expr list" "int option" form

text \<open>
  The store collaborator. \<open>run_query\<close> executes a select on the store in state \<open>'db\<close>;
  \<open>run_exec\<close> executes and commits a statement that may change the store. Either may fail
  with the store's error.
\<close>

record 'db engine =
  run_query :: "'db \<Rightarrow> statement \<Rightarrow> db_error + row list"
  run_exec :: "'db \<Rightarrow> statement \<Rightarrow> db_error + 'db"

section \<open>Reference options\<close>

record option_entry =
  opt_id :: pyvalue
  opt_label :: pyvalue

record ref_options =
  ro_ref_fullname :: string
  ro_id_col :: string
  ro_label_col :: string
  ro_options :: "option_entry list"

text \<open>The loop of \<open>fetch_fk_options\<close> over the result rows; \<open>m["id"]\<close> raises on a missing key.\<close>

fun options_of_rows :: "row list \<Rightarrow> exn + option_entry list" where
  "options_of_rows [] = Inr []"
| "options_of_rows (m # ms) =
     (case map_of m ''id'' of
        None \<Rightarrow> Inl (KeyError ''id'')
      | Some i \<Rightarrow>
         (case map_of m ''label'' of
            None \<Rightarrow> Inl (KeyError ''label'')
          | Some l \<Rightarrow>
             (case options_of_rows ms of
                Inl e \<Rightarrow> Inl e
              | Inr rest \<Rightarrow> Inr (\<lparr> opt_id = i, opt_label = l \<rparr> # rest))))"

definition fetch_fk_options ::
  "'db engine \<Rightarrow> 'db \<Rightarrow> catalog \<Rightarrow> string \<Rightarrow> string \<Rightarrow> string \<Rightarrow> int \<Rightarrow> exn + option_entry list" where
  "fetch_fk_options E db cat fullname id_col label_col limit =
     (let table = reflect_table cat fullname;
          id_c = table_c_get table id_col;
          label_c =
            (if CHR '' '' \<in> set label_col
             then let parts = filter (\<lambda>p. p \<noteq> []) (split label_col CHR '' '')
                  in if length parts = 2 \<and> table_c_get table (parts ! 0) \<noteq> None
                        \<and> table_c_get table (parts ! 1) \<noteq> None
                     then Some (LabelConcat (parts ! 0) (parts ! 1))
                     else None
             else None);
          label_c = (if label_c = None
                     then map_option (\<lambda>c. LabelColumn label_col) (table_c_get table label_col)
                     else label_c)
      in if id_c = None \<or> label_c = None then Inr []
         else case run_query E db (SelectOptions fullname id_col (the label_c) limit) of
                Inl e \<Rightarrow> Inl (SQLAlchemyError e)
              | Inr rows \<Rightarrow> options_of_rows rows)"

text \<open>\<open>try: ... fetch_fk_options(...) except Exception: []\<close>, with the default limit.\<close>

definition fetch_options_or_empty ::
  "'db engine \<Rightarrow> 'db \<Rightarrow> catalog \<Rightarrow> string \<Rightarrow> string \<Rightarrow> string \<Rightarrow> option_entry list" where
  "fetch_options_or_empty E db cat fullname id_col label_col =
     (case fetch_fk_options E db cat fullname id_col label_col 200 of
        Inl e \<Rightarrow> []
      | Inr options \<Rightarrow> options)"

section \<open>Procedure parameters\<close>

record proc_param =
  pp_name :: "string option"
  pp_type :: "string option"
  pp_ref :: "ref_options option"

text \<open>
  The body of the inner loop of \<open>enrich_procedures_with_options\<close>: \<open>pp_ref\<close> holds the
  keys \<open>options\<close>, \<open>ref_fullname\<close>, \<open>id_col\<close> and \<open>label_col\<close> that are added together.
\<close>

definition enrich_param :: "'db engine \<Rightarrow> 'db \<Rightarrow> catalog \<Rightarrow> string \<Rightarrow> proc_param \<Rightarrow> proc_param" where
  "enrich_param E db cat proc p =
     (let ref_full = resolve_ref_full cat proc (pp_name p)
      in if truthy ref_full
         then let id_col = get_primary_key cat (the ref_full)
              in (case id_col of
                    Some (id_name # _) \<Rightarrow>
                      let label_col = pick_label_column cat (the ref_full)
                      in p\<lparr> pp_ref := Some \<lparr> ro_ref_fullname = the ref_full,
                                              ro_id_col = id_name,
                                              ro_label_col = label_col,
                                              ro_options = fetch_options_or_empty E db cat (the ref_full) id_name label_col \<rparr> \<rparr>
                  | _ \<Rightarrow> p)
         else p)"

definition enrich_procedures_with_options ::
  "'db engine \<Rightarrow> 'db \<Rightarrow> catalog \<Rightarrow> (string \<times> proc_param list) list \<Rightarrow> (string \<times> proc_param list) list" where
  "enrich_procedures_with_options E db cat procedures =
     map (\<lambda>(proc, params). (proc, map (enrich_param E db cat proc) params)) procedures"

section \<open>Insert forms\<close>

record visible_col =
  col :: col_meta
  fk :: "ref_options option"

text \<open>
  The body of the loop of \<open>build_insert_columns\<close>: \<open>None\<close> where the loop continues
  without appending.
\<close>

definition insert_column_step ::
  "'db engine \<Rightarrow> 'db \<Rightarrow> catalog \<Rightarrow> tcolumn list \<Rightarrow> (string \<rightharpoonup> fk_info) \<Rightarrow> col_meta \<Rightarrow> visible_col option" where
  "insert_column_step E db cat table fk_map c =
     (case table_c_get table (name c) of
        None \<Rightarrow> None
      | Some tcol \<Rightarrow>
         if is_pk c \<and> autoincrement c then None
         else if default c \<noteq> None \<and> startswith (lower (the (default c))) ''nextval('' then None
         else if tc_identity tcol \<noteq> None then None
         else (case fk_map (name c) of
                 Some f \<Rightarrow>
                   let ref_full = ref_fullname f;
                       ref_id = ref_column f;
                       ref_label = pick_label_column cat ref_full
                   in Some \<lparr> col = c,
                             fk = Some \<lparr> ro_ref_fullname = ref_full, ro_id_col = ref_id,
                                         ro_label_col = ref_label,
                                         ro_options = fetch_options_or_empty E db cat ref_full ref_id ref_label \<rparr> \<rparr>
               | None \<Rightarrow> Some \<lparr> col = c, fk = None \<rparr>))"

definition build_insert_columns :: "'db engine \<Rightarrow> 'db \<Rightarrow> catalog \<Rightarrow> string \<Rightarrow> visible_col list" where
  "build_insert_columns E db cat fullname =
     (let table = reflect_table cat fullname;
          cols_meta = get_columns cat fullname;
          fk_map = get_foreign_keys cat fullname
      in List.map_filter (insert_column_step E db cat table fk_map) cols_meta)"

section \<open>Type coercion and insert\<close>

text \<open>
  The builtins \<open>int\<close>, \<open>float\<close> and \<open>json.loads\<close>: \<open>Inl\<close> carries the text of the
  exception they raise on an input they reject.
\<close>

record builtins =
  py_int :: "string \<Rightarrow> string + int"
  py_float :: "string \<Rightarrow> string + pyfloat"
  json_loads :: "string \<Rightarrow> string + pyjson"

text \<open>The \<open>try\<close> block of \<open>insert_post\<close> for one non-blank raw value.\<close>

definition coerce_value :: "builtins \<Rightarrow> sqltype \<Rightarrow> string \<Rightarrow> string + pyvalue" where
  "coerce_value B t raw =
     (if is_int_type t then (case py_int B raw of Inl ex \<Rightarrow> Inl ex | Inr n \<Rightarrow> Inr (PyInt n))
      else if is_num_type t then (case py_float B raw of Inl ex \<Rightarrow> Inl ex | Inr x \<Rightarrow> Inr (PyFloat x))
      else if is_bool_type t then Inr (PyBool (raw \<in> {''on'', ''true'', ''1'', ''True''}))
      else if is_date_type t then Inr (PyStr raw)
      else if is_json_type t then (case json_loads B raw of Inl ex \<Rightarrow> Inl ex | Inr j \<Rightarrow> Inr (PyJson j))
      else if is_binary_type t then Inr (PyBytes raw)
      else Inr (PyStr raw))"

record coerced =
  vals :: "string \<rightharpoonup> pyvalue"
  errors :: "string \<rightharpoonup> string"

text \<open>The body of the loop of \<open>insert_post\<close> over the columns of the table.\<close>

definition coerce_column :: "builtins \<Rightarrow> catalog \<Rightarrow> string \<Rightarrow> form \<Rightarrow> tcolumn \<Rightarrow> coerced \<Rightarrow> coerced" where
  "coerce_column B cat fullname frm c st =
     (let cname = tc_name c;
          raw = form_get frm cname
      in if cname \<in> set (pk_or_empty cat fullname) \<and> blank raw then st
         else if blank raw
              then (if is_bool_type (tc_type c)
                    then st\<lparr> vals := (vals st)(cname \<mapsto> PyBool (if blank raw then False else the raw \<noteq> [])) \<rparr>
                    else st\<lparr> vals := (vals st)(cname \<mapsto> PyNone) \<rparr>)
              else (case coerce_value B (tc_type c) (the raw) of
                      Inr v \<Rightarrow> st\<lparr> vals := (vals st)(cname \<mapsto> v) \<rparr>
                    | Inl ex \<Rightarrow> st\<lparr> errors := (errors st)(cname \<mapsto> ''Invalid value: '' @ ex) \<rparr>))"

definition coerce_form :: "builtins \<Rightarrow> catalog \<Rightarrow> string \<Rightarrow> form \<Rightarrow> tcolumn list \<Rightarrow> coerced" where
  "coerce_form B cat fullname frm table =
     fold (coerce_column B cat fullname frm) table \<lparr> vals = Map.empty, errors = Map.empty \<rparr>"

text \<open>The em dash of the message, as its UTF-8 bytes.\<close>

definition em_dash :: string where
  "em_dash = [CHR 0xE2, CHR 0x80, CHR 0x94]"

text \<open>
  The \<open>except SQLAlchemyError\<close> block of the insert. First the diagnostic of the failure
  (\<open>getattr(orig, "diag", None)\<close>) and the readable message built from it.
\<close>

definition error_diag :: "db_error \<Rightarrow> diag option" where
  "error_diag e = (case orig e of None \<Rightarrow> None | Some x \<Rightarrow> diag x)"

definition error_message :: "db_error \<Rightarrow> string" where
  "error_message e =
     (let dg = error_diag e;
          primary = (case dg of None \<Rightarrow> None | Some d \<Rightarrow> message_primary d);
          detail = (case dg of None \<Rightarrow> None | Some d \<Rightarrow> message_detail d);
          hint = (case dg of None \<Rightarrow> None | Some d \<Rightarrow> message_hint d);
          msg = (if truthy primary then the primary else str_e e);
          msg = (if truthy detail then msg @ '' '' @ em_dash @ '' '' @ the detail else msg);
          msg = (if truthy hint then msg @ '' (hint: '' @ the hint @ '')'' else msg)
      in msg)"

text \<open>Then the failure as an error map, by its code.\<close>

definition constraint_error_map :: "db_error \<Rightarrow> (string \<rightharpoonup> string)" where
  "constraint_error_map e =
     (let og = orig e;
          code = py_or (case og of None \<Rightarrow> None | Some x \<Rightarrow> sqlstate x)
                       (case og of None \<Rightarrow> None | Some x \<Rightarrow> pgcode x);
          dg = error_diag e;
          colname = (case dg of None \<Rightarrow> None | Some d \<Rightarrow> column_name d);
          cons = (case dg of None \<Rightarrow> None | Some d \<Rightarrow> constraint_name d);
          msg = error_message e;
          cons_part = (if truthy cons then '' ('' @ the cons @ '')'' else [])
      in if is_integrity_error e \<or> is_data_error e \<or> truthy code
         then (if code = Some ''23502'' \<and> truthy colname
               then [the colname \<mapsto> ''Required (NOT NULL).'']
               else if code = Some ''23505''
               then [''_global'' \<mapsto> ''Unique constraint violated'' @ cons_part @ ''. '' @ msg]
               else if code = Some ''23503''
               then (if truthy colname then [the colname \<mapsto> ''Invalid reference (foreign key).'']
                     else [''_global'' \<mapsto> ''Foreign key constraint violated'' @ cons_part @ ''. '' @ msg])
               else if code = Some ''23514''
               then [''_global'' \<mapsto> ''Check constraint violated'' @ cons_part @ ''. '' @ msg]
               else if code = Some ''22001''
               then (if truthy colname then [the colname \<mapsto> ''Value too long for this column.'']
                     else [''_global'' \<mapsto> msg])
               else if code = Some ''22003''
               then (if truthy colname then [the colname \<mapsto> ''Numeric value out of range.'']
                     else [''_global'' \<mapsto> msg])
               else (if truthy colname then [the colname \<mapsto> msg] else [''_global'' \<mapsto> msg]))
         else [''_global'' \<mapsto> str_e e])"

text \<open>\<open>table_name if "." in table_name else f"public.{table_name}"\<close>.\<close>

definition qualify :: "string \<Rightarrow> string" where
  "qualify table_name = (if CHR ''.'' \<in> set table_name then table_name else ''public.'' @ table_name)"

text \<open>
  What \<open>insert_post\<close> renders: the insert form again, with the table, the visible
  columns, the error map and the entered values, or the success page with the table and
  the inserted values.
\<close>

datatype insert_response =
    InsertFormPage string "visible_col list" "string \<rightharpoonup> string" form
  | InsertSuccessPage string "string \<rightharpoonup> pyvalue"

definition insert_post ::
  "'db engine \<Rightarrow> builtins \<Rightarrow> 'db \<Rightarrow> catalog \<Rightarrow> string \<Rightarrow> form \<Rightarrow> insert_response \<times> 'db" where
  "insert_post E B db cat table_name frm =
     (let fullname = qualify table_name;
          table = reflect_table cat fullname;
          st = coerce_form B cat fullname frm table
      in if errors st \<noteq> Map.empty
         then (InsertFormPage fullname (build_insert_columns E db cat fullname) (errors st) frm, db)
         else (case run_exec E db (InsertStmt fullname (vals st)) of
                 Inl e \<Rightarrow>
                   (InsertFormPage fullname (build_insert_columns E db cat fullname)
                      (constraint_error_map e) frm, db)
               | Inr db' \<Rightarrow> (InsertSuccessPage fullname (vals st), db')))"

section \<open>Procedure calls\<close>

text \<open>\<open>sep.join(xs)\<close>.\<close>

fun join :: "string \<Rightarrow> string list \<Rightarrow> string" where
  "join sep [] = []"
| "join sep [x] = x"
| "join sep (x # y # ys) = x @ sep @ join sep (y # ys)"

text \<open>The CALL statement \<open>call_procedure\<close> constructs, with the parameters it binds.\<close>

definition call_statement :: "string \<Rightarrow> form \<Rightarrow> statement" where
  "call_statement proc_name params =
     (let param_names = join '', '' (map (\<lambda>p. '':'' @ p) (map fst params))
      in TextStmt (''CALL '' @ proc_name @ ''('' @ param_names @ '')'') params)"

datatype call_response = CallSuccess string string | HTTPException nat string

definition call_procedure :: "'db engine \<Rightarrow> 'db \<Rightarrow> string \<Rightarrow> form \<Rightarrow> call_response \<times> 'db" where
  "call_procedure E db proc_name form_data =
     (let params = form_data;
          stmt = call_statement proc_name params
      in case run_exec E db stmt of
           Inr db' \<Rightarrow>
             (CallSuccess ''success''
                (''Procedure '' @ [CHR 0x27] @ proc_name @ [CHR 0x27] @ '' executed successfully.''), db')
         | Inl e \<Rightarrow> (HTTPException 500 (str_e e), db))"

section \<open>Change polling\<close>

definition select_new_rows_after_pk ::
  "'db engine \<Rightarrow> 'db \<Rightarrow> catalog \<Rightarrow> string \<Rightarrow> int \<Rightarrow> int \<Rightarrow> db_error + row list" where
  "select_new_rows_after_pk E db cat fullname last_pk max_rows =
     (let table = reflect_table cat fullname;
          pk_cols = pk_or_empty cat fullname
      in if length pk_cols \<noteq> 1 then Inr []
         else let pk_name = hd pk_cols
              in if table_c_get table pk_name = None then Inr []
                 else run_query E db (SelectAfterPk fullname pk_name last_pk max_rows))"

text \<open>
  The JSON bodies of \<open>api_new_rows\<close>: rows with a message, rows with the name of the
  primary-key column used, or the HTTP error raised for a failure of the store.
\<close>

datatype new_rows_response =
    RowsMessage "row list" string
  | RowsPk "row list" string
  | RowsHTTPException nat string

definition api_new_rows ::
  "'db engine \<Rightarrow> 'db \<Rightarrow> catalog \<Rightarrow> string \<Rightarrow> int option \<Rightarrow> int \<Rightarrow> new_rows_response" where
  "api_new_rows E db cat table_name after_pk max_rows =
     (let fullname = qualify table_name;
          pk_cols = pk_or_empty cat fullname
      in if length pk_cols \<noteq> 1
         then RowsMessage [] ''Watching requires a single-column primary key.''
         else if after_pk = None
         then RowsMessage [] ''Provide after_pk to watch for new rows.''
         else (case select_new_rows_after_pk E db cat fullname (the after_pk) max_rows of
                 Inr rows \<Rightarrow> RowsPk rows (hd pk_cols)
               | Inl e \<Rightarrow> RowsHTTPException 500 (str_e e)))"

section \<open>Filters and export\<close>

definition build_filters ::
  "catalog \<Rightarrow> string \<Rightarrow> string option \<Rightarrow> string option \<Rightarrow> string option \<Rightarrow> string option
     \<Rightarrow> tcolumn list \<times> filter_expr list" where
  "build_filters cat fullname q date_from date_to date_col =
     (let table = reflect_table cat fullname;
          text_filters =
            (if truthy q
             then let like = ''%'' @ the q @ ''%'';
                      text_conds = map tc_name (filter (\<lambda>c. is_text_type (tc_type c)) table)
                  in if text_conds \<noteq> [] then [ILikeAny text_conds like] else []
             else []);
          date_filters =
            (if truthy date_from \<or> truthy date_to
             then let given = (if truthy date_col then table_c_get table (the date_col) else None);
                      dcol = (case given of
                                Some c \<Rightarrow> if is_date_type (tc_type c) then Some c
                                          else find (\<lambda>c. is_date_type (tc_type c)) table
                              | None \<Rightarrow> find (\<lambda>c. is_date_type (tc_type c)) table)
                  in (case dcol of
                        None \<Rightarrow> []
                      | Some d \<Rightarrow>
                         (if truthy date_from then [DateGe (tc_name d)] else [])
                         @ (if truthy date_to then [DateLe (tc_name d)] else []))
             else [])
      in (table, text_filters @ date_filters))"

text \<open>
  The CSV writer (\<open>csv.DictWriter\<close>): the text of the header line for the field names, and
  the text of the line of one row under these field names.
\<close>

record csv_writer =
  writeheader :: "string list \<Rightarrow> string"
  writerow :: "string list \<Rightarrow> row \<Rightarrow> string"

text \<open>
  The loop of the generator \<open>row_iter\<close> over the result rows; \<open>writer\<close> is \<open>None\<close> until
  the first row has been seen. The result is the sequence of chunks yielded.
\<close>

fun row_iter_loop :: "csv_writer \<Rightarrow> string list option \<Rightarrow> row list \<Rightarrow> string list" where
  "row_iter_loop W writer [] = []"
| "row_iter_loop W writer (m # ms) =
     (case writer of
        None \<Rightarrow>
          writeheader W (map fst m) # writerow W (map fst m) m # row_iter_loop W (Some (map fst m)) ms
      | Some fieldnames \<Rightarrow> writerow W fieldnames m # row_iter_loop W writer ms)"

definition row_iter :: "'db engine \<Rightarrow> 'db \<Rightarrow> csv_writer \<Rightarrow> statement \<Rightarrow> db_error + string list" where
  "row_iter E db W stmt =
     (case run_query E db stmt of
        Inl e \<Rightarrow> Inl e
      | Inr res \<Rightarrow> Inr (row_iter_loop W None res))"

text \<open>The statement \<open>export_csv\<close> builds for its generator.\<close>

definition export_statement ::
  "catalog \<Rightarrow> string \<Rightarrow> string option \<Rightarrow> string option \<Rightarrow> string option \<Rightarrow> string option
     \<Rightarrow> int option \<Rightarrow> statement" where
  "export_statement cat table_name q date_from date_to date_col limit =
     (let fullname = qualify table_name;
          filters = snd (build_filters cat fullname q date_from date_to date_col);
          lim = (case limit of None \<Rightarrow> None | Some n \<Rightarrow> if n \<noteq> 0 then Some n else None);
          bind_params = (if truthy date_from then [(''date_from'', the date_from)] else [])
                        @ (if truthy date_to then [(''date_to'', the date_to)] else [])
      in SelectFiltered fullname filters lim bind_params)"

text \<open>The body of the response of \<open>export_csv\<close>: the chunks the generator yields.\<close>

definition export_csv ::
  "'db engine \<Rightarrow> 'db \<Rightarrow> csv_writer \<Rightarrow> catalog \<Rightarrow> string \<Rightarrow> string option \<Rightarrow> string option
     \<Rightarrow> string option \<Rightarrow> string option \<Rightarrow> int option \<Rightarrow> db_error + string list" where
  "export_csv E db W cat table_name q date_from date_to date_col limit =
     row_iter E db W (export_statement cat table_name q date_from date_to date_col limit)"

section \<open>Example stores\<close>

text \<open>
  The metadata of a store with four tables in schema \<open>public\<close>, used in the examples
  below: \<open>leaders\<close> (key \<open>leader_id\<close>, a boolean, an integer and a text column),
  \<open>young_people\<close> (key \<open>id\<close>, text columns \<open>name\<close>, \<open>first_name\<close>, \<open>last_name\<close>),
  \<open>memberships\<close> (key \<open>person_id\<close>, \<open>group_id\<close>; a \<open>ticket\<close> fed by a sequence) and
  \<open>name_codes\<close> (no key; integer columns \<open>first_name\<close>, \<open>last_name\<close> and a text
  column \<open>name\<close>).
\<close>

definition sample_pk :: "string \<Rightarrow> string \<Rightarrow> string list option" where
  "sample_pk n s =
     (if s = ''public'' \<and> n = ''leaders'' then Some [''leader_id'']
      else if s = ''public'' \<and> n = ''young_people'' then Some [''id'']
      else if s = ''public'' \<and> n = ''memberships'' then Some [''person_id'', ''group_id'']
      else None)"

definition sample_types :: "string \<Rightarrow> string \<Rightarrow> (string \<times> sqltype) list" where
  "sample_types n s =
     (if s = ''public'' \<and> n = ''leaders''
      then [(''leader_id'', Integer), (''active'', Boolean), (''rank'', Integer), (''bio'', String)]
      else if s = ''public'' \<and> n = ''young_people''
      then [(''id'', Integer), (''name'', String), (''first_name'', String), (''last_name'', SqlText)]
      else if s = ''public'' \<and> n = ''memberships''
      then [(''person_id'', Integer), (''group_id'', Integer), (''ticket'', Integer)]
      else if s = ''public'' \<and> n = ''name_codes''
      then [(''first_name'', Integer), (''last_name'', Integer), (''name'', String)]
      else [])"

definition sample_catalog :: catalog where
  "sample_catalog =
     \<lparr> schema_names = [''information_schema'', ''public''],
       table_names =
         (\<lambda>s. if s = ''public'' then [''young_people'', ''leaders'', ''memberships'', ''name_codes'']
              else []),
       pk_constraint = sample_pk,
       insp_columns = (\<lambda>n s.
          map (\<lambda>(c, t). \<lparr> ic_name = c, ic_type = t, ic_nullable = None,
                           ic_default = (if c = ''ticket'' then Some ''nextval(memberships_ticket_seq)''
                                         else None),
                           ic_autoincrement = (c \<in> {''leader_id'', ''id''}) \<rparr>)
              (sample_types n s)),
       insp_foreign_keys = (\<lambda>n s. []),
       reflected = (\<lambda>n s.
          map (\<lambda>(c, t). \<lparr> tc_name = c, tc_type = t, tc_identity = None \<rparr>) (sample_types n s)) \<rparr>"

text \<open>The procedures of the example store, as \<open>get_procedures_with_params\<close> lists them.\<close>

definition sample_procedures :: "(string \<times> proc_param list) list" where
  "sample_procedures =
     [(''leader_transfer'',
       [\<lparr> pp_name = Some ''new_leader_id'', pp_type = Some ''integer'', pp_ref = None \<rparr>,
        \<lparr> pp_name = Some ''target_id'', pp_type = Some ''integer'', pp_ref = None \<rparr>])]"

text \<open>A store whose state is the list of the statements it has executed.\<close>

definition recording_engine :: "statement list engine" where
  "recording_engine =
     \<lparr> run_query = (\<lambda>db stmt. Inr []),
       run_exec = (\<lambda>db stmt. Inr (db @ [stmt])) \<rparr>"

text \<open>A store that fails on every statement.\<close>

definition unreachable_error :: db_error where
  "unreachable_error =
     \<lparr> is_integrity_error = False, is_data_error = False, str_e = ''connection refused'',
       orig = None \<rparr>"

definition failing_engine :: "statement list engine" where
  "failing_engine =
     \<lparr> run_query = (\<lambda>db stmt. Inl unreachable_error),
       run_exec = (\<lambda>db stmt. Inl unreachable_error) \<rparr>"

text \<open>
  Builtins for the examples: \<open>int\<close> on strings of decimal digits, rejecting every other
  string; the examples do not reach the other two with text they accept.
\<close>

definition digit_value :: "char \<Rightarrow> int option" where
  "digit_value c = map_of (zip ''0123456789'' [0, 1, 2, 3, 4, 5, 6, 7, 8, 9]) c"

definition sample_int :: "string \<Rightarrow> string + int" where
  "sample_int s =
     (if s \<noteq> [] \<and> (\<forall>c\<in>set s. digit_value c \<noteq> None)
      then Inr (foldl (\<lambda>a c. 10 * a + the (digit_value c)) 0 s)
      else Inl (''invalid literal for int() with base 10: '' @ s))"

definition sample_builtins :: builtins where
  "sample_builtins =
     \<lparr> py_int = sample_int,
       py_float = (\<lambda>s. Inl (''could not convert string to float: '' @ s)),
       json_loads = (\<lambda>s. Inl ''Expecting value'') \<rparr>"

text \<open>A store whose every select yields the one row \<open>{"name": "Ann"}\<close>.\<close>

definition one_row_engine :: "statement list engine" where
  "one_row_engine =
     \<lparr> run_query = (\<lambda>db stmt. Inr [[(''name'', PyStr ''Ann'')]]),
       run_exec = (\<lambda>db stmt. Inr (db @ [stmt])) \<rparr>"

text \<open>A CSV writer for the examples, for text values that need no quoting.\<close>

definition sample_csv :: csv_writer where
  "sample_csv =
     \<lparr> writeheader = (\<lambda>fieldnames. join '','' fieldnames @ [CHR 0x0D, CHR 0x0A]),
       writerow = (\<lambda>fieldnames m.
          join '','' (map (\<lambda>k. case map_of m k of Some (PyStr s) \<Rightarrow> s | _ \<Rightarrow> []) fieldnames)
          @ [CHR 0x0D, CHR 0x0A]) \<rparr>"

text \<open>A unique violation whose diagnostic names the column \<open>email\<close>.\<close>

definition sample_unique_orig :: orig where
  "sample_unique_orig =
     \<lparr> sqlstate = Some ''23505'', pgcode = None,
       diag = Some \<lparr> column_name = Some ''email'',
                     constraint_name = Some ''users_email_key'',
                     message_primary = Some ''duplicate key value violates unique constraint'',
                     message_detail = None, message_hint = None \<rparr> \<rparr>"

definition sample_unique_error :: db_error where
  "sample_unique_error =
     \<lparr> is_integrity_error = True, is_data_error = False,
       str_e = ''(psycopg.errors.UniqueViolation) duplicate key value'',
       orig = Some sample_unique_orig \<rparr>"

text \<open>The column \<open>ticket\<close> of \<open>public.memberships\<close> as \<open>get_columns\<close> describes it.\<close>

definition ticket_column :: col_meta where
  "ticket_column =
     \<lparr> name = ''ticket'', ctype = Integer, nullable = True, is_pk = False,
       autoincrement = False, default = Some ''nextval(memberships_ticket_seq)'' \<rparr>"

section \<open>Properties\<close>

lemma strip_prefix_cases:
  "(\<forall>p\<in>set prefs. \<not> startswith base p) \<and> strip_prefix prefs base = base
   \<or> (\<exists>i<length prefs. base = prefs ! i @ strip_prefix prefs base
                        \<and> (\<forall>j<i. \<not> startswith base (prefs ! j)))"
proof (induction prefs)
  case Nil
  show ?case by simp
next
  case (Cons pref prefs)
  show ?case
  proof (cases "startswith base pref")
    case True
    then have "base = pref @ drop (length pref) base"
      unfolding startswith_def by (metis append_take_drop_id)
    with True have "base = (pref # prefs) ! 0 @ strip_prefix (pref # prefs) base
        \<and> (\<forall>j<0. \<not> startswith base ((pref # prefs) ! j))" by simp
    then show ?thesis by blast
  next
    case False
    from Cons.IH show ?thesis
    proof
      assume "(\<forall>p\<in>set prefs. \<not> startswith base p) \<and> strip_prefix prefs base = base"
      with False show ?thesis by simp
    next
      assume "\<exists>i<length prefs. base = prefs ! i @ strip_prefix prefs base
                \<and> (\<forall>j<i. \<not> startswith base (prefs ! j))"
      then obtain i where i: "i < length prefs" "base = prefs ! i @ strip_prefix prefs base"
        "\<forall>j<i. \<not> startswith base (prefs ! j)" by blast
      have "\<forall>j<Suc i. \<not> startswith base ((pref # prefs) ! j)"
        using False i(3) by (auto simp: less_Suc_eq_0_disj)
      moreover have "base = (pref # prefs) ! Suc i @ strip_prefix (pref # prefs) base"
        using False i(2) by simp
      moreover have "Suc i < length (pref # prefs)" using i(1) by simp
      ultimately show ?thesis by blast
    qed
  qed
qed

lemma length_lower: "length (lower s) = length s"
  by (simp add: lower_def)

lemma sample_tables:
  "get_tables sample_catalog =
     [''public.leaders'', ''public.memberships'', ''public.name_codes'', ''public.young_people'']"
  by (simp add: get_tables_def sample_catalog_def)

lemma sample_leader_candidate:
  "all_table_name_candidates sample_catalog ''leader'' = Some ''public.leaders''"
  by (simp add: Let_def all_table_name_candidates_def sample_tables add_candidates_def
      parse_table_def lower_def lower_char_def endswith_def)

lemma sample_old_leader_candidate:
  "all_table_name_candidates sample_catalog ''old_leader'' = None"
  by (simp add: Let_def all_table_name_candidates_def sample_tables add_candidates_def
      parse_table_def lower_def lower_char_def endswith_def)

lemma sample_lookup_old_leader: "lookup_base sample_catalog ''old_leader'' = Some ''public.leaders''"
  by (simp add: lookup_base_def Let_def sample_leader_candidate sample_old_leader_candidate split_def)

lemma sample_lookup_leader: "lookup_base sample_catalog ''leader'' = Some ''public.leaders''"
  by (simp add: lookup_base_def Let_def sample_leader_candidate)

text \<open>
  C3. For a parameter name ending in \<open>_id\<close>, the resolver looks up the base token that
  remains after the suffix is cut and the prefix loop has run; that token is either the
  base itself, when no listed prefix matches, or the base without one prefix, namely the
  first prefix of the ordered list that the base starts with. Nothing more is cut, also
  when the remainder starts with a listed prefix again.
\<close>

theorem strip_at_most_one_prefix:
  assumes "pn \<noteq> []" and "endswith (lower pn) ''_id''"
  shows "\<exists>base r. base = take (length pn - 3) (lower pn)
           \<and> r = strip_prefix directional_prefixes base
           \<and> guess_ref_table_for_param cat (Some pn) = lookup_base cat r
           \<and> ((\<forall>p\<in>set directional_prefixes. \<not> startswith base p) \<and> r = base
              \<or> (\<exists>i<length directional_prefixes.
                    base = directional_prefixes ! i @ r
                    \<and> (\<forall>j<i. \<not> startswith base (directional_prefixes ! j))))"
proof -
  have "guess_ref_table_for_param cat (Some pn)
          = lookup_base cat (strip_prefix directional_prefixes (take (length pn - 3) (lower pn)))"
    using assms by (simp add: guess_ref_table_for_param_def truthy_def Let_def length_lower)
  then show ?thesis
    using strip_prefix_cases [of directional_prefixes "take (length pn - 3) (lower pn)"]
    by blast
qed

theorem strip_at_most_one_prefix_witness:
  "lower ''New_Old_Leader_ID'' = ''new_old_leader_id''
   \<and> strip_prefix directional_prefixes ''new_old_leader'' = ''old_leader''
   \<and> guess_ref_table_for_param sample_catalog (Some ''New_Old_Leader_ID'') = Some ''public.leaders''"
proof -
  have l: "lower ''New_Old_Leader_ID'' = ''new_old_leader_id''"
    by (simp add: lower_def lower_char_def)
  have s: "strip_prefix directional_prefixes ''new_old_leader'' = ''old_leader''"
    by (simp add: directional_prefixes_def startswith_def)
  have e: "endswith (lower ''New_Old_Leader_ID'') ''_id''"
    by (simp add: l endswith_def)
  have n: "''New_Old_Leader_ID'' \<noteq> []" by simp
  from strip_at_most_one_prefix [OF n e, of sample_catalog]
  have "guess_ref_table_for_param sample_catalog (Some ''New_Old_Leader_ID'')
          = lookup_base sample_catalog ''old_leader''"
    by (simp add: l s)
  then show ?thesis by (simp add: l s sample_lookup_old_leader)
qed

lemma override_values:
  assumes "map_of PROCEDURE_PARAM_TABLE_OVERRIDES proc = Some d" and "map_of d pname = Some t"
  shows "t \<noteq> []"
  using assms by (auto simp: PROCEDURE_PARAM_TABLE_OVERRIDES_def split: if_splits)

text \<open>
  C2. For a pair (procedure name, parameter name) that the override table holds, the
  referenced table is the one the table gives, whatever the metadata of the store is,
  hence whatever the naming heuristics would find there; and the enriched parameter carries
  that table whenever the table has a primary key to take the option ids from.
\<close>

theorem override_precedence:
  assumes "map_of PROCEDURE_PARAM_TABLE_OVERRIDES proc = Some d" and "map_of d pname = Some t"
  shows "resolve_ref_full cat proc (Some pname) = Some t
         \<and> (pp_name p = Some pname \<longrightarrow> get_primary_key cat t = Some (k # ks)
              \<longrightarrow> map_option ro_ref_fullname (pp_ref (enrich_param E db cat proc p)) = Some t)"
proof -
  have t: "t \<noteq> []" using assms by (rule override_values)
  have r: "resolve_ref_full cat proc (Some pname) = Some t"
    using assms t by (simp add: resolve_ref_full_def override_lookup_def truthy_def Let_def)
  show ?thesis
    using r t by (simp add: enrich_param_def truthy_def Let_def)
qed

theorem override_precedence_witness:
  "guess_ref_table_for_param sample_catalog (Some ''new_leader_id'') = Some ''public.leaders''
   \<and> resolve_ref_full sample_catalog ''leader_transfer'' (Some ''new_leader_id'') = Some ''public.young_people''
   \<and> map_option ro_ref_fullname
       (pp_ref (enrich_param recording_engine [] sample_catalog ''leader_transfer''
                  \<lparr> pp_name = Some ''new_leader_id'', pp_type = Some ''integer'', pp_ref = None \<rparr>))
     = Some ''public.young_people''"
proof -
  have g: "guess_ref_table_for_param sample_catalog (Some ''new_leader_id'') = Some ''public.leaders''"
    by (simp add: guess_ref_table_for_param_def truthy_def Let_def lower_def lower_char_def
        endswith_def directional_prefixes_def startswith_def sample_lookup_leader)
  have d: "map_of PROCEDURE_PARAM_TABLE_OVERRIDES ''leader_transfer''
             = Some [(''new_leader_id'', ''public.young_people''), (''target_id'', ''public.projects'')]"
    by (simp add: PROCEDURE_PARAM_TABLE_OVERRIDES_def)
  have m: "map_of [(''new_leader_id'', ''public.young_people''), (''target_id'', ''public.projects'')]
             ''new_leader_id'' = Some ''public.young_people''"
    by simp
  have k: "get_primary_key sample_catalog ''public.young_people'' = Some (''id'' # [])"
    by (simp add: get_primary_key_def parse_table_def sample_catalog_def sample_pk_def)
  from override_precedence [OF d m, of sample_catalog
      "\<lparr> pp_name = Some ''new_leader_id'', pp_type = Some ''integer'', pp_ref = None \<rparr>"
      "''id''" "[]" recording_engine "[]"] k g
  show ?thesis by simp
qed


text \<open>
  C8, as stated, fails: the table \<open>public.name_codes\<close> has columns \<open>first_name\<close> and
  \<open>last_name\<close>, of integer type, and a text column \<open>name\<close>; the label picker returns
  \<open>name\<close>, not the composite marker.
\<close>

theorem composite_label_counterexample:
  "''first_name'' \<in> set (map name (get_columns sample_catalog ''public.name_codes''))
   \<and> ''last_name'' \<in> set (map name (get_columns sample_catalog ''public.name_codes''))
   \<and> pick_label_column sample_catalog ''public.name_codes'' = ''name''
   \<and> pick_label_column sample_catalog ''public.name_codes'' \<noteq> ''first_name last_name''"
proof -
  let ?c1 = "\<lparr> name = ''first_name'', ctype = Integer, nullable = True, is_pk = False,
               autoincrement = False, default = None \<rparr>"
  let ?c2 = "\<lparr> name = ''last_name'', ctype = Integer, nullable = True, is_pk = False,
               autoincrement = False, default = None \<rparr>"
  let ?c3 = "\<lparr> name = ''name'', ctype = String, nullable = True, is_pk = False,
               autoincrement = False, default = None \<rparr>"
  have cols: "get_columns sample_catalog ''public.name_codes'' = [?c1, ?c2, ?c3]"
    by (simp add: get_columns_def parse_table_def sample_catalog_def sample_types_def Let_def
        sample_pk_def pk_or_empty_def get_primary_key_def)
  have text_cols: "filter (\<lambda>c. is_text_type (ctype c)) [?c1, ?c2, ?c3] = [?c3]"
    by (simp add: is_text_type_def)
  have pref: "pick_preferred preferred [?c3] = Some ''name''"
    by (simp add: preferred_def lower_def lower_char_def)
  have "pick_label_column sample_catalog ''public.name_codes'' = ''name''"
    unfolding pick_label_column_def cols Let_def text_cols pref
    by (simp add: lower_def lower_char_def)
  then show ?thesis by (simp add: cols)
qed

text \<open>
  C8, amended. For every table with a text-typed column whose lower-cased name is
  \<open>first_name\<close> and a text-typed column whose lower-cased name is \<open>last_name\<close>, the label
  picker returns the composite marker \<open>first_name last_name\<close>, before every other rule:
  whatever other columns, preferred names or primary key the table has.
\<close>

theorem composite_label_precedence:
  assumes "c1 \<in> set (get_columns cat fullname)" and "is_text_type (ctype c1)"
    and "lower (name c1) = ''first_name''"
    and "c2 \<in> set (get_columns cat fullname)" and "is_text_type (ctype c2)"
    and "lower (name c2) = ''last_name''"
  shows "pick_label_column cat fullname = ''first_name last_name''"
proof -
  let ?text_cols = "filter (\<lambda>c. is_text_type (ctype c)) (get_columns cat fullname)"
  have "c1 \<in> set ?text_cols" and "c2 \<in> set ?text_cols" using assms by simp_all
  then have "lower (name c1) \<in> set (map (\<lambda>c. lower (name c)) ?text_cols)"
    and "lower (name c2) \<in> set (map (\<lambda>c. lower (name c)) ?text_cols)"
    by (simp_all only: set_map image_eqI)
  then show ?thesis
    using assms(3,6) by (simp add: pick_label_column_def Let_def)
qed

theorem composite_label_precedence_witness:
  "''name'' \<in> set (map name (get_columns sample_catalog ''public.young_people''))
   \<and> pick_label_column sample_catalog ''public.young_people'' = ''first_name last_name''"
proof -
  let ?c1 = "\<lparr> name = ''first_name'', ctype = String, nullable = True, is_pk = False,
               autoincrement = False, default = None \<rparr>"
  let ?c2 = "\<lparr> name = ''last_name'', ctype = SqlText, nullable = True, is_pk = False,
               autoincrement = False, default = None \<rparr>"
  have cols: "get_columns sample_catalog ''public.young_people''
      = [\<lparr> name = ''id'', ctype = Integer, nullable = True, is_pk = True,
            autoincrement = True, default = None \<rparr>,
         \<lparr> name = ''name'', ctype = String, nullable = True, is_pk = False,
            autoincrement = False, default = None \<rparr>, ?c1, ?c2]"
    by (simp add: get_columns_def parse_table_def sample_catalog_def sample_types_def Let_def
        sample_pk_def pk_or_empty_def get_primary_key_def)
  have a: "?c1 \<in> set (get_columns sample_catalog ''public.young_people'')"
    and b: "?c2 \<in> set (get_columns sample_catalog ''public.young_people'')"
    by (simp_all add: cols)
  have t1: "is_text_type (ctype ?c1)" and t2: "is_text_type (ctype ?c2)"
    by (simp_all add: is_text_type_def)
  have n1: "lower (name ?c1) = ''first_name''" and n2: "lower (name ?c2) = ''last_name''"
    by (simp_all add: lower_def lower_char_def)
  from composite_label_precedence [OF a t1 n1 b t2 n2]
  show ?thesis by (simp add: cols)
qed


lemma startswith_lower:
  assumes "startswith d p" and "lower p = p"
  shows "startswith (lower d) p"
proof -
  have "take (length p) (lower d) = lower (take (length p) d)"
    by (simp add: lower_def take_map)
  with assms show ?thesis by (simp add: startswith_def)
qed

lemma insert_column_step_Some:
  assumes "insert_column_step E db cat table fk_map c = Some vc"
  shows "col vc = c"
    and "\<not> (default c \<noteq> None \<and> startswith (lower (the (default c))) ''nextval('')"
    and "\<exists>tcol. table_c_get table (name c) = Some tcol \<and> tc_identity tcol = None"
  using assms
  by (auto simp: insert_column_step_def Let_def split: option.splits if_splits)

text \<open>
  C10. A column whose server default begins with \<open>nextval(\<close> (in any letter case), or
  whose reflected column carries an identity marker, is not among the insertable
  columns. Nothing is assumed on whether the column is a primary key.
\<close>

theorem generated_default_excluded:
  assumes "(\<exists>d. default c = Some d \<and> (startswith d ''nextval('' \<or> startswith (lower d) ''nextval(''))
           \<or> (\<exists>tcol. table_c_get (reflect_table cat fullname) (name c) = Some tcol
                       \<and> tc_identity tcol \<noteq> None)"
  shows "c \<notin> col ` set (build_insert_columns E db cat fullname)"
proof
  assume "c \<in> col ` set (build_insert_columns E db cat fullname)"
  then obtain vc where vc: "vc \<in> set (build_insert_columns E db cat fullname)" and c: "col vc = c"
    by blast
  from vc obtain c' where
    step: "insert_column_step E db cat (reflect_table cat fullname) (get_foreign_keys cat fullname) c'
             = Some vc"
    by (auto simp: build_insert_columns_def Let_def List.map_filter_def)
  from insert_column_step_Some(1) [OF step] c have eq: "c' = c" by simp
  have l: "lower ''nextval('' = ''nextval(''" by (simp add: lower_def lower_char_def)
  from assms show False
  proof
    assume "\<exists>d. default c = Some d \<and> (startswith d ''nextval('' \<or> startswith (lower d) ''nextval('')"
    then obtain d where d: "default c = Some d" "startswith (lower d) ''nextval(''"
      using startswith_lower [OF _ l] by blast
    with insert_column_step_Some(2) [OF step] eq show False by simp
  next
    assume "\<exists>tcol. table_c_get (reflect_table cat fullname) (name c) = Some tcol
                     \<and> tc_identity tcol \<noteq> None"
    with insert_column_step_Some(3) [OF step] eq show False by auto
  qed
qed

theorem generated_default_excluded_witness:
  "ticket_column \<in> set (get_columns sample_catalog ''public.memberships'')
   \<and> \<not> is_pk ticket_column
   \<and> ticket_column \<notin> col ` set (build_insert_columns recording_engine [] sample_catalog ''public.memberships'')"
proof -
  have a: "ticket_column \<in> set (get_columns sample_catalog ''public.memberships'')"
    by (simp add: ticket_column_def get_columns_def parse_table_def sample_catalog_def
        sample_types_def Let_def sample_pk_def pk_or_empty_def get_primary_key_def)
  have b: "(\<exists>d. default ticket_column = Some d
                \<and> (startswith d ''nextval('' \<or> startswith (lower d) ''nextval(''))
           \<or> (\<exists>tcol. table_c_get (reflect_table sample_catalog ''public.memberships'') (name ticket_column)
                         = Some tcol \<and> tc_identity tcol \<noteq> None)"
    by (simp add: ticket_column_def startswith_def)
  from generated_default_excluded [OF b, of recording_engine "[]"] a
  show ?thesis by (simp add: ticket_column_def)
qed


text \<open>
  C7. For a table whose primary key is not exactly one column, change polling answers
  with no rows and the message that a single-column primary key is required, and the
  row fetch itself returns no rows: whatever the store would do with a statement, so no
  statement is executed and no failure of the store can surface.
\<close>

theorem composite_key_unsupported:
  assumes "length (pk_or_empty cat (qualify table_name)) \<noteq> 1"
  shows "api_new_rows E db cat table_name after_pk max_rows
           = RowsMessage [] ''Watching requires a single-column primary key.''
         \<and> select_new_rows_after_pk E db cat (qualify table_name) last_pk max_rows = Inr []"
  using assms by (simp add: api_new_rows_def select_new_rows_after_pk_def Let_def)

theorem composite_key_unsupported_witness:
  "pk_or_empty sample_catalog (qualify ''memberships'') = [''person_id'', ''group_id'']
   \<and> api_new_rows failing_engine [] sample_catalog ''memberships'' (Some 7) 50
       = RowsMessage [] ''Watching requires a single-column primary key.''
   \<and> select_new_rows_after_pk failing_engine [] sample_catalog ''public.memberships'' 7 50 = Inr []"
proof -
  have q: "qualify ''memberships'' = ''public.memberships''" by (simp add: qualify_def)
  have pk: "pk_or_empty sample_catalog ''public.memberships'' = [''person_id'', ''group_id'']"
    by (simp add: pk_or_empty_def get_primary_key_def parse_table_def sample_catalog_def sample_pk_def)
  have h: "length (pk_or_empty sample_catalog (qualify ''memberships'')) \<noteq> 1"
    by (simp add: q pk)
  from composite_key_unsupported [OF h, of failing_engine "[]" "Some 7" 50 7]
  show ?thesis by (simp add: q pk)
qed


lemma row_iter_loop_Some:
  "row_iter_loop W (Some fieldnames) ms = map (writerow W fieldnames) ms"
  by (induction ms) simp_all

text \<open>
  C9. When the filtered select of an export yields no row, the generator yields no chunk
  at all, so the stream has zero bytes and no header. When it yields rows, the header
  built from the first row is the first chunk, followed by one chunk per row.
\<close>

theorem empty_export_no_bytes:
  "(run_query E db (export_statement cat table_name q date_from date_to date_col limit) = Inr []
      \<longrightarrow> export_csv E db W cat table_name q date_from date_to date_col limit = Inr []
          \<and> concat (projr (export_csv E db W cat table_name q date_from date_to date_col limit)) = [])
   \<and> (run_query E db (export_statement cat table_name q date_from date_to date_col limit) = Inr (m # ms)
      \<longrightarrow> export_csv E db W cat table_name q date_from date_to date_col limit
            = Inr (writeheader W (map fst m) # map (writerow W (map fst m)) (m # ms)))"
  by (simp add: export_csv_def row_iter_def row_iter_loop_Some)

theorem empty_export_no_bytes_witness:
  "export_csv recording_engine [] sample_csv sample_catalog ''leaders'' (Some ''zzz'') None None None None
     = Inr []
   \<and> export_csv one_row_engine [] sample_csv sample_catalog ''leaders'' (Some ''zzz'') None None None None
     = Inr [''name'' @ [CHR 0x0D, CHR 0x0A], ''Ann'' @ [CHR 0x0D, CHR 0x0A]]"
proof -
  have a: "run_query recording_engine []
             (export_statement sample_catalog ''leaders'' (Some ''zzz'') None None None None) = Inr []"
    by (simp add: recording_engine_def)
  have b: "run_query one_row_engine []
             (export_statement sample_catalog ''leaders'' (Some ''zzz'') None None None None)
           = Inr ([(''name'', PyStr ''Ann'')] # [])"
    by (simp add: one_row_engine_def)
  from empty_export_no_bytes [of recording_engine "[]" sample_catalog "''leaders''" "Some ''zzz''"
      None None None None sample_csv] a
  have 1: "export_csv recording_engine [] sample_csv sample_catalog ''leaders'' (Some ''zzz'')
             None None None None = Inr []"
    by simp
  from empty_export_no_bytes [of one_row_engine "[]" sample_catalog "''leaders''" "Some ''zzz''"
      None None None None sample_csv "[(''name'', PyStr ''Ann'')]" "[]"] b
  have 2: "export_csv one_row_engine [] sample_csv sample_catalog ''leaders'' (Some ''zzz'')
             None None None None
           = Inr [''name'' @ [CHR 0x0D, CHR 0x0A], ''Ann'' @ [CHR 0x0D, CHR 0x0A]]"
    by (simp add: sample_csv_def)
  from 1 2 show ?thesis by simp
qed


text \<open>
  C6. A failure whose code is that of a unique violation (\<open>23505\<close>) is mapped to an error
  map with the single key \<open>_global\<close>, whose message names the constraint when the
  diagnostic gives one, whichever column the diagnostic names.
\<close>

theorem unique_violation_global:
  assumes "orig e = Some og" and "py_or (sqlstate og) (pgcode og) = Some ''23505''"
  shows "constraint_error_map e
           = [''_global'' \<mapsto>
                ''Unique constraint violated''
                @ (case diag og of
                     None \<Rightarrow> []
                   | Some d \<Rightarrow> if truthy (constraint_name d)
                              then '' ('' @ the (constraint_name d) @ '')'' else [])
                @ ''. '' @ error_message e]"
proof -
  have t: "truthy (Some ''23505'')" and n: "\<not> truthy None" by (simp_all add: truthy_def)
  show ?thesis
    using assms t n
    by (cases "diag og") (simp_all add: constraint_error_map_def error_diag_def Let_def)
qed

theorem unique_violation_global_witness:
  "constraint_error_map sample_unique_error ''email'' = None
   \<and> constraint_error_map sample_unique_error ''_global''
       = Some ''Unique constraint violated (users_email_key). duplicate key value violates unique constraint''"
proof -
  have a: "orig sample_unique_error = Some sample_unique_orig"
    by (simp add: sample_unique_error_def)
  have b: "py_or (sqlstate sample_unique_orig) (pgcode sample_unique_orig) = Some ''23505''"
    by (simp add: sample_unique_orig_def py_or_def truthy_def)
  have m: "error_message sample_unique_error = ''duplicate key value violates unique constraint''"
    by (simp add: error_message_def error_diag_def sample_unique_error_def sample_unique_orig_def
        Let_def truthy_def)
  from unique_violation_global [OF a b]
  show ?thesis by (simp add: m sample_unique_orig_def truthy_def)
qed


lemma coerce_column_other:
  assumes "k \<noteq> tc_name c"
  shows "vals (coerce_column B cat fullname frm c st) k = vals st k"
    and "errors (coerce_column B cat fullname frm c st) k = errors st k"
  using assms by (simp_all add: coerce_column_def Let_def split: sum.splits)

lemma coerce_column_cong:
  assumes "vals st1 (tc_name c) = vals st2 (tc_name c)"
    and "errors st1 (tc_name c) = errors st2 (tc_name c)"
  shows "vals (coerce_column B cat fullname frm c st1) (tc_name c)
           = vals (coerce_column B cat fullname frm c st2) (tc_name c)"
    and "errors (coerce_column B cat fullname frm c st1) (tc_name c)
           = errors (coerce_column B cat fullname frm c st2) (tc_name c)"
  using assms by (simp_all add: coerce_column_def Let_def split: sum.splits)

lemma coerce_fold_other:
  assumes "k \<notin> tc_name ` set cs"
  shows "vals (fold (coerce_column B cat fullname frm) cs st) k = vals st k
         \<and> errors (fold (coerce_column B cat fullname frm) cs st) k = errors st k"
  using assms
proof (induction cs arbitrary: st)
  case Nil
  show ?case by simp
next
  case (Cons a cs)
  then have "k \<noteq> tc_name a" and "k \<notin> tc_name ` set cs" by auto
  with Cons.IH [of "coerce_column B cat fullname frm a st"] show ?case
    by (simp add: coerce_column_other)
qed

lemma coerce_fold_at:
  assumes "distinct (map tc_name cs)" and "c \<in> set cs"
  shows "vals (fold (coerce_column B cat fullname frm) cs st) (tc_name c)
           = vals (coerce_column B cat fullname frm c st) (tc_name c)
         \<and> errors (fold (coerce_column B cat fullname frm) cs st) (tc_name c)
           = errors (coerce_column B cat fullname frm c st) (tc_name c)"
  using assms
proof (induction cs arbitrary: st)
  case Nil
  then show ?case by simp
next
  case (Cons a cs)
  show ?case
  proof (cases "c = a")
    case True
    with Cons.prems have "tc_name c \<notin> tc_name ` set cs" by auto
    from coerce_fold_other [OF this] True show ?thesis by simp
  next
    case False
    with Cons.prems have c: "c \<in> set cs" and d: "distinct (map tc_name cs)"
      and na: "tc_name a \<notin> tc_name ` set cs" by auto
    from c na have ne: "tc_name c \<noteq> tc_name a" by (metis imageI)
    let ?st = "coerce_column B cat fullname frm a st"
    have "vals ?st (tc_name c) = vals st (tc_name c)"
      and "errors ?st (tc_name c) = errors st (tc_name c)"
      using ne by (simp_all add: coerce_column_other)
    then have "vals (coerce_column B cat fullname frm c ?st) (tc_name c)
                 = vals (coerce_column B cat fullname frm c st) (tc_name c)"
      and "errors (coerce_column B cat fullname frm c ?st) (tc_name c)
                 = errors (coerce_column B cat fullname frm c st) (tc_name c)"
      by (rule coerce_column_cong)+
    with Cons.IH [OF d c, of ?st] show ?thesis by simp
  qed
qed

lemma sample_leaders_table:
  "reflect_table sample_catalog ''public.leaders''
     = [\<lparr> tc_name = ''leader_id'', tc_type = Integer, tc_identity = None \<rparr>,
        \<lparr> tc_name = ''active'', tc_type = Boolean, tc_identity = None \<rparr>,
        \<lparr> tc_name = ''rank'', tc_type = Integer, tc_identity = None \<rparr>,
        \<lparr> tc_name = ''bio'', tc_type = String, tc_identity = None \<rparr>]"
  by (simp add: reflect_table_def parse_table_def sample_catalog_def sample_types_def)

lemma sample_leaders_pk: "pk_or_empty sample_catalog ''public.leaders'' = [''leader_id'']"
  by (simp add: pk_or_empty_def get_primary_key_def parse_table_def sample_catalog_def sample_pk_def)

text \<open>
  C4. In the coercion of a submitted form for insert, a column of the table whose raw
  value is blank or absent is treated as follows: a primary-key column gets no key in the
  value set; a column that is not a primary key gets \<open>False\<close> when it is boolean and an
  explicit \<open>None\<close> otherwise. No error is recorded for it. The value set is the one
  handed to the insert. (Column names of a table are distinct.)
\<close>

theorem blank_field_coercion:
  assumes "distinct (map tc_name (reflect_table cat (qualify table_name)))"
    and "c \<in> set (reflect_table cat (qualify table_name))"
    and "blank (form_get frm (tc_name c))"
  shows "let st = coerce_form B cat (qualify table_name) frm (reflect_table cat (qualify table_name))
         in (if tc_name c \<in> set (pk_or_empty cat (qualify table_name))
             then tc_name c \<notin> dom (vals st)
             else if is_bool_type (tc_type c) then vals st (tc_name c) = Some (PyBool False)
             else vals st (tc_name c) = Some PyNone)
            \<and> tc_name c \<notin> dom (errors st)
            \<and> (errors st = Map.empty
                 \<longrightarrow> run_exec E db (InsertStmt (qualify table_name) (vals st)) = Inr db'
                 \<longrightarrow> insert_post E B db cat table_name frm
                       = (InsertSuccessPage (qualify table_name) (vals st), db'))"
proof -
  let ?fn = "qualify table_name"
  let ?e = "\<lparr> vals = Map.empty, errors = Map.empty \<rparr>"
  from coerce_fold_at [OF assms(1,2), of B cat ?fn frm ?e]
  have v: "vals (coerce_form B cat ?fn frm (reflect_table cat ?fn)) (tc_name c)
             = vals (coerce_column B cat ?fn frm c ?e) (tc_name c)"
    and e: "errors (coerce_form B cat ?fn frm (reflect_table cat ?fn)) (tc_name c)
             = errors (coerce_column B cat ?fn frm c ?e) (tc_name c)"
    by (simp_all add: coerce_form_def)
  have 1: "tc_name c \<in> set (pk_or_empty cat ?fn)
             \<Longrightarrow> vals (coerce_column B cat ?fn frm c ?e) (tc_name c) = None"
    using assms(3) by (simp add: coerce_column_def Let_def)
  have 2: "tc_name c \<notin> set (pk_or_empty cat ?fn) \<Longrightarrow> is_bool_type (tc_type c)
             \<Longrightarrow> vals (coerce_column B cat ?fn frm c ?e) (tc_name c) = Some (PyBool False)"
    using assms(3) by (simp add: coerce_column_def Let_def)
  have 3: "tc_name c \<notin> set (pk_or_empty cat ?fn) \<Longrightarrow> \<not> is_bool_type (tc_type c)
             \<Longrightarrow> vals (coerce_column B cat ?fn frm c ?e) (tc_name c) = Some PyNone"
    using assms(3) by (simp add: coerce_column_def Let_def)
  have 4: "errors (coerce_column B cat ?fn frm c ?e) (tc_name c) = None"
    using assms(3) by (simp add: coerce_column_def Let_def)
  show ?thesis
    using 1 2 3 4 by (simp add: Let_def v e domIff insert_post_def)
qed

theorem blank_field_coercion_witness:
  "vals (coerce_form sample_builtins sample_catalog ''public.leaders'' [] 
           (reflect_table sample_catalog ''public.leaders'')) ''leader_id'' = None
   \<and> vals (coerce_form sample_builtins sample_catalog ''public.leaders'' []
           (reflect_table sample_catalog ''public.leaders'')) ''active'' = Some (PyBool False)
   \<and> vals (coerce_form sample_builtins sample_catalog ''public.leaders'' []
           (reflect_table sample_catalog ''public.leaders'')) ''rank'' = Some PyNone"
proof -
  let ?k = "\<lparr> tc_name = ''leader_id'', tc_type = Integer, tc_identity = None \<rparr>"
  let ?a = "\<lparr> tc_name = ''active'', tc_type = Boolean, tc_identity = None \<rparr>"
  let ?r = "\<lparr> tc_name = ''rank'', tc_type = Integer, tc_identity = None \<rparr>"
  have q: "qualify ''leaders'' = ''public.leaders''" by (simp add: qualify_def)
  have d: "distinct (map tc_name (reflect_table sample_catalog (qualify ''leaders'')))"
    by (simp add: q sample_leaders_table)
  have k: "?k \<in> set (reflect_table sample_catalog (qualify ''leaders''))"
    and a: "?a \<in> set (reflect_table sample_catalog (qualify ''leaders''))"
    and r: "?r \<in> set (reflect_table sample_catalog (qualify ''leaders''))"
    by (simp_all add: q sample_leaders_table)
  have bk: "blank (form_get [] (tc_name ?k))" and ba: "blank (form_get [] (tc_name ?a))"
    and br: "blank (form_get [] (tc_name ?r))"
    by (simp_all add: blank_def form_get_def)
  from blank_field_coercion [OF d k bk, of sample_builtins recording_engine "[]" "[]"]
    blank_field_coercion [OF d a ba, of sample_builtins recording_engine "[]" "[]"]
    blank_field_coercion [OF d r br, of sample_builtins recording_engine "[]" "[]"]
  show ?thesis
    by (simp add: Let_def q sample_leaders_pk is_bool_type_def domIff)
qed


text \<open>
  C5. In the coercion of an insert submission, the outcome for a column with a non-blank
  raw value depends on that column alone: when its value does not parse, the error is
  recorded under the column's name; when it parses, the value is in the value set;
  whatever happens to the other columns. And when the value of some column does not parse,
  the response is the form again with the error map and the entered values, and the
  store is in the state it was in, whatever the store would do with a statement: no
  insert is executed. (Column names of a table are distinct.)
\<close>

theorem coercion_collects_errors:
  assumes "distinct (map tc_name (reflect_table cat (qualify table_name)))"
    and "c \<in> set (reflect_table cat (qualify table_name))"
    and "\<not> blank (form_get frm (tc_name c))"
  shows "let st = coerce_form B cat (qualify table_name) frm (reflect_table cat (qualify table_name));
             r = coerce_value B (tc_type c) (the (form_get frm (tc_name c)))
         in (case r of
               Inl ex \<Rightarrow> errors st (tc_name c) = Some (''Invalid value: '' @ ex)
                         \<and> vals st (tc_name c) = None
             | Inr v \<Rightarrow> vals st (tc_name c) = Some v \<and> errors st (tc_name c) = None)
            \<and> (isl r \<longrightarrow>
                 insert_post E B db cat table_name frm
                   = (InsertFormPage (qualify table_name)
                        (build_insert_columns E db cat (qualify table_name)) (errors st) frm, db))"
proof -
  let ?fn = "qualify table_name"
  let ?e = "\<lparr> vals = Map.empty, errors = Map.empty \<rparr>"
  let ?st = "coerce_form B cat ?fn frm (reflect_table cat ?fn)"
  let ?r = "coerce_value B (tc_type c) (the (form_get frm (tc_name c)))"
  from coerce_fold_at [OF assms(1,2), of B cat ?fn frm ?e]
  have v: "vals ?st (tc_name c) = vals (coerce_column B cat ?fn frm c ?e) (tc_name c)"
    and e: "errors ?st (tc_name c) = errors (coerce_column B cat ?fn frm c ?e) (tc_name c)"
    by (simp_all add: coerce_form_def)
  have field: "case ?r of
                 Inl ex \<Rightarrow> errors ?st (tc_name c) = Some (''Invalid value: '' @ ex)
                           \<and> vals ?st (tc_name c) = None
               | Inr v \<Rightarrow> vals ?st (tc_name c) = Some v \<and> errors ?st (tc_name c) = None"
    using assms(3) by (simp add: v e coerce_column_def Let_def split: sum.splits)
  have "errors ?st \<noteq> Map.empty" if "isl ?r"
  proof -
    from that field have "errors ?st (tc_name c) \<noteq> None"
      by (auto simp: isl_def)
    then show ?thesis by auto
  qed
  then have "isl ?r \<longrightarrow>
      insert_post E B db cat table_name frm
        = (InsertFormPage ?fn (build_insert_columns E db cat ?fn) (errors ?st) frm, db)"
    by (simp add: insert_post_def Let_def)
  with field show ?thesis by (simp add: Let_def)
qed

theorem coercion_collects_errors_witness:
  "errors (coerce_form sample_builtins sample_catalog ''public.leaders''
             [(''rank'', ''abc''), (''bio'', ''hello'')]
             (reflect_table sample_catalog ''public.leaders'')) ''rank''
     = Some ''Invalid value: invalid literal for int() with base 10: abc''
   \<and> vals (coerce_form sample_builtins sample_catalog ''public.leaders''
             [(''rank'', ''abc''), (''bio'', ''hello'')]
             (reflect_table sample_catalog ''public.leaders'')) ''bio''
     = Some (PyStr ''hello'')
   \<and> snd (insert_post recording_engine sample_builtins [] sample_catalog ''leaders''
             [(''rank'', ''abc''), (''bio'', ''hello'')]) = []"
proof -
  let ?r = "\<lparr> tc_name = ''rank'', tc_type = Integer, tc_identity = None \<rparr>"
  let ?b = "\<lparr> tc_name = ''bio'', tc_type = String, tc_identity = None \<rparr>"
  let ?frm = "[(''rank'', ''abc''), (''bio'', ''hello'')]"
  have q: "qualify ''leaders'' = ''public.leaders''" by (simp add: qualify_def)
  have d: "distinct (map tc_name (reflect_table sample_catalog (qualify ''leaders'')))"
    by (simp add: q sample_leaders_table)
  have r: "?r \<in> set (reflect_table sample_catalog (qualify ''leaders''))"
    and b: "?b \<in> set (reflect_table sample_catalog (qualify ''leaders''))"
    by (simp_all add: q sample_leaders_table)
  have nr: "\<not> blank (form_get ?frm (tc_name ?r))" and nb: "\<not> blank (form_get ?frm (tc_name ?b))"
    by (simp_all add: blank_def form_get_def)
  have cr: "coerce_value sample_builtins Integer (the (form_get ?frm ''rank''))
              = Inl ''invalid literal for int() with base 10: abc''"
    by (simp add: coerce_value_def is_int_type_def sample_builtins_def sample_int_def
        digit_value_def form_get_def)
  have cb: "coerce_value sample_builtins String (the (form_get ?frm ''bio''))
              = Inr (PyStr ''hello'')"
    by (simp add: coerce_value_def is_int_type_def is_num_type_def is_bool_type_def
        is_date_type_def is_json_type_def is_binary_type_def form_get_def)
  from coercion_collects_errors [OF d r nr, of sample_builtins recording_engine "[]"]
    coercion_collects_errors [OF d b nb, of sample_builtins recording_engine "[]"]
  show ?thesis
    by (simp add: Let_def q cr cb)
qed


text \<open>
  C1, as stated, fails: the name \<open>audit.purge\<close> is no procedure that the store lists and
  is in no table of the program, and still the statement that reaches the store is built
  from it.
\<close>

theorem call_procedure_counterexample:
  "''audit.purge'' \<notin> set (map fst sample_procedures)
   \<and> ''audit.purge'' \<notin> set (map fst PROCEDURE_PARAM_TABLE_OVERRIDES)
   \<and> call_procedure recording_engine [] ''audit.purge'' [(''days'', ''0'')]
       = (CallSuccess ''success''
            (''Procedure '' @ [CHR 0x27] @ ''audit.purge'' @ [CHR 0x27] @ '' executed successfully.''),
          [TextStmt ''CALL audit.purge(:days)'' [(''days'', ''0'')]])"
  by (simp add: sample_procedures_def PROCEDURE_PARAM_TABLE_OVERRIDES_def call_procedure_def
      call_statement_def recording_engine_def Let_def)

text \<open>
  C1, amended. The procedure-call operation validates nothing: for every procedure name
  and every submitted form, the statement it executes is the text \<open>CALL\<close>, the name as
  given, and in parentheses the submitted field names, each after a colon, separated by
  a comma and a space; the submitted form is bound as the parameters. It answers success
  when the store accepts the statement, and an HTTP 500 with the store's error otherwise.
\<close>

theorem call_procedure_interpolates:
  "call_procedure E db proc_name frm
     = (case run_exec E db
               (TextStmt (''CALL '' @ proc_name @ ''('' @ join '', '' (map (\<lambda>p. '':'' @ fst p) frm) @ '')'')
                  frm) of
          Inr db' \<Rightarrow>
            (CallSuccess ''success''
               (''Procedure '' @ [CHR 0x27] @ proc_name @ [CHR 0x27] @ '' executed successfully.''), db')
        | Inl e \<Rightarrow> (HTTPException 500 (str_e e), db))"
  by (simp add: call_procedure_def call_statement_def Let_def comp_def)


end
